theory Spec2Isabelle
  imports Main "HOL-Library.Word" "HOL-Library.AList"
begin

unbundle bit_operations_syntax

text \<open>
  The Claude Code agent of stagewise: the prompt builder, the decoder of the child
  process's output, the process supervisor, and the agent that keeps the chats of the
  shared state in step with the events of a turn. Each function of the TypeScript source
  is given as a function of the same name. What the source takes from its platform (the
  outcome of \<open>spawn\<close>, \<open>JSON.parse\<close>, generated identifiers, the clock) is a
  parameter.
\<close>

section \<open>JavaScript strings\<close>

text \<open>
  A JavaScript string is a sequence of UTF-16 code units. Literals of the source that are
  plain ASCII are written through \<open>js\<close>; the two Chinese labels of the prompt builder are
  given by their code units.
\<close>

type_synonym code_unit = "16 word"
type_synonym jsstring = "code_unit list"

definition js :: "string \<Rightarrow> jsstring" where
  "js s = map of_char s"

definition NL :: code_unit where
  "NL = 0x0A"

text \<open>\<open>Array.prototype.join\<close> on an array of strings.\<close>

fun join :: "jsstring \<Rightarrow> jsstring list \<Rightarrow> jsstring" where
  "join sep [] = []"
| "join sep [x] = x"
| "join sep (x # y # ys) = x @ sep @ join sep (y # ys)"

section \<open>Prompt builder (prompt-builder.ts)\<close>

record ClaudeCodeInput =
  text_in :: jsstring
  domContext :: "jsstring option"
  screenshots :: "jsstring list option"
  pluginSnippets :: "jsstring list option"

datatype content_item =
  Text_item jsstring
| Image_item (source_type: jsstring) (media_type: jsstring) (data: jsstring)

record wire_message =
  role :: jsstring
  content :: "content_item list"

record StreamJsonUserMessage =
  msg_type :: jsstring
  message :: wire_message

text \<open>The label \<open>[...DOM...]\<close> followed by a newline, as the template literal of line 8.\<close>

definition dom_label :: jsstring where
  "dom_label = [0x5B, 0x7528, 0x6237, 0x9009, 0x4E2D, 0x7684, 0x44, 0x4F, 0x4D,
                0x5143, 0x7D20, 0x5D, 0x0A]"

text \<open>The label of the plugin context followed by a newline, as in line 12.\<close>

definition plugin_label :: jsstring where
  "plugin_label = [0x5B, 0x9879, 0x76EE, 0x4E0A, 0x4E0B, 0x6587, 0x5D, 0x0A]"

text \<open>
  \<open>buildPromptText\<close>: \<open>parts\<close> starts empty, each \<open>if\<close> pushes one block, the user text
  is pushed last, and the parts are joined with two newlines. \<open>if (input.domContext)\<close> is
  false for \<open>undefined\<close> and for the empty string; \<open>input.pluginSnippets?.length\<close> is
  false for \<open>undefined\<close> and for the empty array.
\<close>

definition buildPromptText :: "ClaudeCodeInput \<Rightarrow> jsstring" where
  "buildPromptText input =
    (let parts0 = [];
         parts1 = (case domContext input of
                     None \<Rightarrow> parts0
                   | Some d \<Rightarrow> if d \<noteq> [] then parts0 @ [dom_label @ d] else parts0);
         parts2 = (case pluginSnippets input of
                     None \<Rightarrow> parts1
                   | Some ps \<Rightarrow>
                       if ps \<noteq> [] then parts1 @ [plugin_label @ join [NL] ps] else parts1);
         parts3 = parts2 @ [text_in input]
     in join [NL, NL] parts3)"

text \<open>The \<open>for ... of\<close> loop of \<open>buildStreamJsonMessage\<close>, pushing one image per screenshot.\<close>

fun push_screenshots :: "content_item list \<Rightarrow> jsstring list \<Rightarrow> content_item list" where
  "push_screenshots acc [] = acc"
| "push_screenshots acc (screenshot # rest) =
     push_screenshots (acc @ [Image_item (js ''base64'') (js ''image/png'') screenshot]) rest"

definition buildStreamJsonMessage :: "ClaudeCodeInput \<Rightarrow> StreamJsonUserMessage" where
  "buildStreamJsonMessage input =
    (let content0 = push_screenshots []
                      (case screenshots input of None \<Rightarrow> [] | Some ss \<Rightarrow> ss);
         content1 = content0 @ [Text_item (buildPromptText input)]
     in \<lparr>msg_type = js ''user'',
         message = \<lparr>role = js ''user'', content = content1\<rparr>\<rparr>)"

subsection \<open>The composition as the specification words it\<close>

text \<open>
  A block is present when its source is given and not empty; each present block is followed
  by a blank line, and the user text comes last.
\<close>

definition spec_dom_block :: "ClaudeCodeInput \<Rightarrow> jsstring" where
  "spec_dom_block input =
     (case domContext input of
        None \<Rightarrow> []
      | Some d \<Rightarrow> if d = [] then [] else dom_label @ d @ [NL, NL])"

definition spec_plugin_block :: "ClaudeCodeInput \<Rightarrow> jsstring" where
  "spec_plugin_block input =
     (case pluginSnippets input of
        None \<Rightarrow> []
      | Some ps \<Rightarrow> if ps = [] then [] else plugin_label @ join [NL] ps @ [NL, NL])"

definition spec_text :: "ClaudeCodeInput \<Rightarrow> jsstring" where
  "spec_text input = spec_dom_block input @ spec_plugin_block input @ text_in input"

definition spec_image :: "jsstring \<Rightarrow> content_item" where
  "spec_image d = Image_item (js ''base64'') (js ''image/png'') d"

definition spec_content :: "ClaudeCodeInput \<Rightarrow> content_item list" where
  "spec_content input =
     map spec_image (case screenshots input of None \<Rightarrow> [] | Some ss \<Rightarrow> ss)
       @ [Text_item (spec_text input)]"

section \<open>Stream decoder (stream-parser.ts)\<close>

subsection \<open>Chunks of bytes and \<open>chunk.toString()\<close>\<close>

text \<open>
  The output channel of the child process has no encoding set, so every chunk is a buffer
  of bytes, and \<open>chunk.toString()\<close> decodes that chunk alone as UTF-8: a well-formed
  sequence gives its code point (two surrogates above U+FFFF), and every maximal ill-formed
  part gives one U+FFFD.
\<close>

type_synonym byte = "8 word"

definition REPLACEMENT :: code_unit where
  "REPLACEMENT = 0xFFFD"

definition is_cont :: "byte \<Rightarrow> bool" where
  "is_cont b \<longleftrightarrow> 0x80 \<le> b \<and> b \<le> 0xBF"

definition two_bytes :: "byte \<Rightarrow> byte \<Rightarrow> code_unit" where
  "two_bytes b c = push_bit 6 (ucast (b AND 0x1F)) OR ucast (c AND 0x3F)"

definition three_bytes :: "byte \<Rightarrow> byte \<Rightarrow> byte \<Rightarrow> code_unit" where
  "three_bytes b c d =
     push_bit 12 (ucast (b AND 0x0F)) OR push_bit 6 (ucast (c AND 0x3F)) OR ucast (d AND 0x3F)"

definition four_bytes :: "byte \<Rightarrow> byte \<Rightarrow> byte \<Rightarrow> byte \<Rightarrow> code_unit list" where
  "four_bytes b c d e =
     (let cp = (push_bit 18 (ucast (b AND 0x07)) OR push_bit 12 (ucast (c AND 0x3F))
                 OR push_bit 6 (ucast (d AND 0x3F)) OR ucast (e AND 0x3F) :: 32 word);
          v = cp - 0x10000
      in [0xD800 + ucast (drop_bit 10 v), 0xDC00 + ucast (v AND 0x3FF)])"

text \<open>
  The bounds of the second byte, which depend on the first: they exclude overlong forms,
  surrogates and code points above U+10FFFF.
\<close>

definition second_lo :: "byte \<Rightarrow> byte" where
  "second_lo b = (if b = 0xE0 then 0xA0 else if b = 0xF0 then 0x90 else 0x80)"

definition second_hi :: "byte \<Rightarrow> byte" where
  "second_hi b = (if b = 0xED then 0x9F else if b = 0xF4 then 0x8F else 0xBF)"

fun utf8_decode :: "byte list \<Rightarrow> jsstring" where
  "utf8_decode [] = []"
| "utf8_decode (b # bs) =
    (if b < 0x80 then ucast b # utf8_decode bs
     else if 0xC2 \<le> b \<and> b \<le> 0xDF then
       (case bs of
          [] \<Rightarrow> [REPLACEMENT]
        | c # rest \<Rightarrow>
            if is_cont c then two_bytes b c # utf8_decode rest
            else REPLACEMENT # utf8_decode bs)
     else if 0xE0 \<le> b \<and> b \<le> 0xEF then
       (case bs of
          [] \<Rightarrow> [REPLACEMENT]
        | c # rest \<Rightarrow>
            if second_lo b \<le> c \<and> c \<le> second_hi b then
              (case rest of
                 [] \<Rightarrow> [REPLACEMENT]
               | d # rest' \<Rightarrow>
                   if is_cont d then three_bytes b c d # utf8_decode rest'
                   else REPLACEMENT # utf8_decode rest)
            else REPLACEMENT # utf8_decode bs)
     else if 0xF0 \<le> b \<and> b \<le> 0xF4 then
       (case bs of
          [] \<Rightarrow> [REPLACEMENT]
        | c # rest \<Rightarrow>
            if second_lo b \<le> c \<and> c \<le> second_hi b then
              (case rest of
                 [] \<Rightarrow> [REPLACEMENT]
               | d # rest' \<Rightarrow>
                   if is_cont d then
                     (case rest' of
                        [] \<Rightarrow> [REPLACEMENT]
                      | e # rest'' \<Rightarrow>
                          if is_cont e then four_bytes b c d e @ utf8_decode rest''
                          else REPLACEMENT # utf8_decode rest')
                   else REPLACEMENT # utf8_decode rest)
            else REPLACEMENT # utf8_decode bs)
     else REPLACEMENT # utf8_decode bs)"

definition toString :: "byte list \<Rightarrow> jsstring" where
  "toString chunk = utf8_decode chunk"

subsection \<open>Lines\<close>

text \<open>
  \<open>buffer.split\<close> at the newline: the pieces between the separators, at least one
  piece.
  \<open>lines.pop()\<close> gives the last piece (nothing for an empty array) and leaves the
  others. \<open>trim\<close> removes white space and line terminators from both ends.
\<close>

fun split_on :: "'a \<Rightarrow> 'a list \<Rightarrow> 'a list list" where
  "split_on sep [] = [[]]"
| "split_on sep (x # xs) =
     (if x = sep then [] # split_on sep xs
      else (case split_on sep xs of
              [] \<Rightarrow> [[x]]
            | piece # pieces \<Rightarrow> (x # piece) # pieces))"

definition pop :: "'a list \<Rightarrow> 'a option \<times> 'a list" where
  "pop xs = (if xs = [] then (None, []) else (Some (last xs), butlast xs))"

definition is_js_space :: "code_unit \<Rightarrow> bool" where
  "is_js_space u \<longleftrightarrow>
     u \<in> {0x09, 0x0A, 0x0B, 0x0C, 0x0D, 0x20, 0xA0, 0x1680, 0x2028, 0x2029, 0x202F,
          0x205F, 0x3000, 0xFEFF}
     \<or> (0x2000 \<le> u \<and> u \<le> 0x200A)"

definition trim :: "jsstring \<Rightarrow> jsstring" where
  "trim s = rev (dropWhile is_js_space (rev (dropWhile is_js_space s)))"

subsection \<open>The generator\<close>

text \<open>
  What the generator gives out, in order: an event it yields, or a warning on the console
  (the message and the text printed after it). \<open>JSON.parse\<close> is a parameter of the
  model: it gives \<open>None\<close> where it throws.
\<close>

datatype 'e emitted = Yield 'e | Warn jsstring jsstring

text \<open>The body of the loop over the complete lines (lines 94 to 105).\<close>

definition parse_line :: "(jsstring \<Rightarrow> 'e option) \<Rightarrow> jsstring \<Rightarrow> 'e emitted list" where
  "parse_line JSON_parse line =
     (let trimmed = trim line
      in if trimmed = [] then []
         else (case JSON_parse trimmed of
                 Some event \<Rightarrow> [Yield event]
               | None \<Rightarrow> [Warn (js ''[stream-parser] Failed to parse line:'') trimmed]))"

text \<open>What is left in the buffer when the channel closes (lines 109 to 116).\<close>

definition parse_final :: "(jsstring \<Rightarrow> 'e option) \<Rightarrow> jsstring \<Rightarrow> 'e emitted list" where
  "parse_final JSON_parse buffer =
     (if trim buffer \<noteq> [] then
        (case JSON_parse (trim buffer) of
           Some event \<Rightarrow> [Yield event]
         | None \<Rightarrow> [Warn (js ''[stream-parser] Failed to parse final buffer:'') buffer])
      else [])"

text \<open>
  The loop over the chunks, with its buffer; the end of the list is the close of the
  channel.
\<close>

fun read_chunks ::
  "(jsstring \<Rightarrow> 'e option) \<Rightarrow> jsstring \<Rightarrow> byte list list \<Rightarrow> 'e emitted list" where
  "read_chunks JSON_parse buffer [] = parse_final JSON_parse buffer"
| "read_chunks JSON_parse buffer (chunk # rest) =
     (let buffer1 = buffer @ toString chunk;
          (popped, lines) = pop (split_on NL buffer1);
          buffer2 = (case popped of None \<Rightarrow> [] | Some l \<Rightarrow> l)
      in concat (map (parse_line JSON_parse) lines) @ read_chunks JSON_parse buffer2 rest)"

definition parseStreamJson ::
  "(jsstring \<Rightarrow> 'e option) \<Rightarrow> byte list list \<Rightarrow> 'e emitted list" where
  "parseStreamJson JSON_parse stdout = read_chunks JSON_parse [] stdout"

text \<open>
  The same output written as a function of the whole decoded text: every line before the
  last newline is a record, and what follows the last newline is the final record.
\<close>

definition decode_text :: "(jsstring \<Rightarrow> 'e option) \<Rightarrow> jsstring \<Rightarrow> 'e emitted list" where
  "decode_text JSON_parse t =
     concat (map (parse_line JSON_parse) (butlast (split_on NL t)))
       @ parse_final JSON_parse (last (split_on NL t))"

section \<open>Shared state (Karton contract)\<close>

text \<open>
  The parts of a chat message are objects told apart by their \<open>type\<close> field; the agent
  reads \<open>type\<close>, \<open>text\<close>, \<open>data\<close> and \<open>mimeType\<close>.
\<close>

record part =
  ptype :: jsstring
  ptext :: "jsstring option"
  pdata :: "jsstring option"
  mimeType :: "jsstring option"

text \<open>
  A selected element of \<open>metadata.browserData.selectedElements\<close>. The attribute map is
  kept as the text \<open>JSON.stringify\<close> gives for it.
\<close>

record selected_element =
  xpath :: "jsstring option"
  textContent :: "jsstring option"
  attributes :: "jsstring option"

record message_metadata =
  createdAt :: nat
  selectedElements :: "selected_element list option"
  pluginContentItems :: "(jsstring \<times> (jsstring \<times> jsstring) list) list option"

datatype msg_role = User | Assistant

record ChatMessage =
  msg_id :: jsstring
  msg_role :: msg_role
  parts :: "part list"
  metadata :: "message_metadata option"

record Chat =
  title :: jsstring
  chat_createdAt :: nat
  messages :: "ChatMessage list"

text \<open>
  The state held by the Karton server. \<open>chats\<close> is an object keyed by chat id; it is kept
  as an association list in the order \<open>Object.keys\<close> enumerates it: the keys that are array
  indices first, in ascending numeric order, then the other keys in the order they were
  created. The fields \<open>toolCallApprovalRequests\<close> and \<open>subscription\<close> are never read or
  written by the agent and are left out.
\<close>

record kstate =
  activeChatId :: "jsstring option"
  chats :: "(jsstring \<times> Chat) list"
  isWorking :: bool

text \<open>
  A key is an array index when it is the decimal numeral, without leading zero, of a number
  below \<open>2^32 - 1\<close>.
\<close>

definition is_digit :: "code_unit \<Rightarrow> bool" where
  "is_digit u \<longleftrightarrow> 0x30 \<le> u \<and> u \<le> 0x39"

fun numeral_value :: "int \<Rightarrow> jsstring \<Rightarrow> int" where
  "numeral_value acc [] = acc"
| "numeral_value acc (u # us) = numeral_value (10 * acc + uint (u - 0x30)) us"

definition array_index :: "jsstring \<Rightarrow> int option" where
  "array_index k =
     (if k \<noteq> [] \<and> list_all is_digit k \<and> (length k = 1 \<or> hd k \<noteq> 0x30)
         \<and> numeral_value 0 k < 4294967295
      then Some (numeral_value 0 k) else None)"

text \<open>
  Assignment to a property of an object, \<open>obj[k] = v\<close>: an existing key keeps its place;
  a new array index goes among the array indices, by value; any other new key goes to the
  end.
\<close>

fun insert_index :: "int \<Rightarrow> jsstring \<Rightarrow> 'v \<Rightarrow> (jsstring \<times> 'v) list \<Rightarrow> (jsstring \<times> 'v) list" where
  "insert_index n k v [] = [(k, v)]"
| "insert_index n k v (p # ps) =
     (case array_index (fst p) of
        None \<Rightarrow> (k, v) # p # ps
      | Some m \<Rightarrow> if m < n then p # insert_index n k v ps else (k, v) # p # ps)"

definition obj_set :: "jsstring \<Rightarrow> 'v \<Rightarrow> (jsstring \<times> 'v) list \<Rightarrow> (jsstring \<times> 'v) list" where
  "obj_set k v al =
     (if map_of al k \<noteq> None then AList.update k v al
      else (case array_index k of
              None \<Rightarrow> al @ [(k, v)]
            | Some n \<Rightarrow> insert_index n k v al))"

definition initialState :: kstate where
  "initialState = \<lparr>activeChatId = None, chats = [], isWorking = False\<rparr>"

section \<open>Prompt builder: reading the user message\<close>

text \<open>The decimal numeral of \<open>i + 1\<close> in the template literal of \<open>serializeDomContext\<close>.\<close>

fun decimal :: "nat \<Rightarrow> jsstring" where
  "decimal n = (if n < 10 then [0x30 + of_nat n]
                else decimal (n div 10) @ [0x30 + of_nat (n mod 10)])"

definition element_label :: jsstring where
  "element_label = [0x5143, 0x7D20, 0x20]"

definition text_label :: jsstring where
  "text_label = [0x6587, 0x672C, 0x3A, 0x20]"

definition attributes_label :: jsstring where
  "attributes_label = [0x5C5E, 0x6027, 0x3A, 0x20]"

definition serialize_element :: "nat \<Rightarrow> selected_element \<Rightarrow> jsstring" where
  "serialize_element i el =
    (let parts0 = [element_label @ decimal (i + 1) @ js '':''];
         parts1 = (case xpath el of
                     None \<Rightarrow> parts0
                   | Some x \<Rightarrow> if x \<noteq> [] then parts0 @ [js ''XPath: '' @ x] else parts0);
         parts2 = (case textContent el of
                     None \<Rightarrow> parts1
                   | Some t \<Rightarrow> if t \<noteq> [] then parts1 @ [text_label @ t] else parts1);
         parts3 = (case attributes el of
                     None \<Rightarrow> parts2
                   | Some j \<Rightarrow> parts2 @ [attributes_label @ j])
     in join [NL] parts3)"

definition serializeDomContext :: "selected_element list option \<Rightarrow> jsstring option" where
  "serializeDomContext selected =
    (case selected of
       None \<Rightarrow> None
     | Some els \<Rightarrow>
         if els = [] then None
         else Some (join [NL, NL] (map (\<lambda>(i, el). serialize_element i el) (enumerate 0 els))))"

definition extractPluginSnippets ::
  "(jsstring \<times> (jsstring \<times> jsstring) list) list option \<Rightarrow> jsstring list" where
  "extractPluginSnippets items =
    (case items of
       None \<Rightarrow> []
     | Some plugins \<Rightarrow>
         concat (map (\<lambda>(pluginName, its).
                   map (\<lambda>(itemName, item_text).
                         js ''['' @ pluginName @ js ''/'' @ itemName @ js '']'' @ [NL] @ item_text)
                       its)
                 plugins))"

definition is_image_file :: "part \<Rightarrow> bool" where
  "is_image_file p \<longleftrightarrow>
     ptype p = js ''file''
     \<and> (case mimeType p of None \<Rightarrow> False | Some m \<Rightarrow> take 6 m = js ''image/'')"

definition extractScreenshots :: "part list \<Rightarrow> jsstring list" where
  "extractScreenshots ps =
     concat (map (\<lambda>p. case pdata p of None \<Rightarrow> [] | Some d \<Rightarrow> if d \<noteq> [] then [d] else [])
                 (filter is_image_file ps))"

text \<open>Step 2 of \<open>handleUserMessage\<close>: the input bundle read from the user message.\<close>

definition compose_input :: "ChatMessage \<Rightarrow> ClaudeCodeInput" where
  "compose_input msg =
    (let textPart = find (\<lambda>p. ptype p = js ''text'') (parts msg)
     in \<lparr>text_in = (case textPart of
                      None \<Rightarrow> []
                    | Some p \<Rightarrow> (case ptext p of None \<Rightarrow> [] | Some t \<Rightarrow> t)),
         domContext = serializeDomContext
                        (case metadata msg of None \<Rightarrow> None | Some md \<Rightarrow> selectedElements md),
         screenshots = Some (extractScreenshots (parts msg)),
         pluginSnippets = Some (extractPluginSnippets
                        (case metadata msg of None \<Rightarrow> None | Some md \<Rightarrow> pluginContentItems md))\<rparr>)"

section \<open>Process supervisor (process-manager.ts)\<close>

text \<open>
  The closures of the agent that are handed to other functions. There is one: the arrow
  function of \<open>handleUserMessage\<close> that sets \<open>isWorking\<close> to false.
\<close>

datatype callback = ClearWorking

text \<open>
  The values a caller can put in an argument position at run time; the parameter types of
  TypeScript are not checked there.
\<close>

datatype jsvalue = Undefined | Str jsstring | Closure callback

fun truthy :: "jsvalue \<Rightarrow> bool" where
  "truthy Undefined = False"
| "truthy (Str s) = (s \<noteq> [])"
| "truthy (Closure c) = True"

record ClaudeCodeAgentConfig =
  command :: jsstring
  cwd :: jsstring
  skipPermissions :: bool
  appendSystemPrompt :: "jsstring option"
  allowedTools :: "jsstring list option"

text \<open>
  A process handle: the child (named by its pid), what it was spawned with, and the
  \<open>onExit\<close> the exit listener closes over.
\<close>

record ProcessHandle =
  pid :: nat
  spawn_file :: jsstring
  spawn_args :: "jsvalue list"
  spawn_cwd :: jsstring
  onExit :: "callback option"

datatype error = SpawnError jsstring | TypeError | ReadError

text \<open>
  What \<open>spawn\<close> of \<open>node:child_process\<close> does is not decided by this code: the call
  either throws or returns a child. A child that was returned can still fail to start;
  Node reports that later by an \<open>error\<close> event of the child, for which \<open>spawnClaudeCode\<close>
  registers no listener (it listens to \<open>exit\<close> and to the data of the error channel
  only). That event is not among the steps of a turn below.
\<close>

datatype spawn_outcome = Throws jsstring | Child nat

definition spawnClaudeCode ::
  "ClaudeCodeAgentConfig \<Rightarrow> jsvalue \<Rightarrow> callback option \<Rightarrow> spawn_outcome
     \<Rightarrow> error + ProcessHandle" where
  "spawnClaudeCode cfg sessionId on_exit outcome =
    (let args0 = map Str [js ''-p'', js ''--input-format'', js ''stream-json'',
                          js ''--output-format'', js ''stream-json'', js ''--verbose''];
         args1 = (if truthy sessionId then args0 @ [Str (js ''--resume''), sessionId]
                  else args0);
         args2 = (if skipPermissions cfg
                  then args1 @ [Str (js ''--dangerously-skip-permissions'')] else args1);
         args3 = (case appendSystemPrompt cfg of
                    None \<Rightarrow> args2
                  | Some p \<Rightarrow>
                      if p \<noteq> [] then args2 @ [Str (js ''--append-system-prompt''), Str p]
                      else args2);
         args4 = (case allowedTools cfg of
                    None \<Rightarrow> args3
                  | Some tools \<Rightarrow>
                      if tools \<noteq> [] then args3 @ Str (js ''--allowed-tools'') # map Str tools
                      else args3)
     in case outcome of
          Throws reason \<Rightarrow> Inl (SpawnError reason)
        | Child p \<Rightarrow>
            Inr \<lparr>pid = p, spawn_file = command cfg, spawn_args = args4,
                 spawn_cwd = cwd cfg, onExit = on_exit\<rparr>)"

section \<open>The agent (ClaudeCodeAgent.ts)\<close>

text \<open>
  What the agent does to the outside is kept as a trace: processes spawned, what is
  written to their input, signals sent, and callbacks run by the exit listener. Console
  output is not part of it.
\<close>

datatype effect =
  Spawn ProcessHandle
| StdinWrite nat StreamJsonUserMessage
| StdinEnd nat
| Kill nat
| Invoked callback "int option"

record agent =
  karton :: "kstate option"
  config :: ClaudeCodeAgentConfig
  currentProcess :: "ProcessHandle option"
  effects :: "effect list"

subsection \<open>Procedures on the chats\<close>

definition createAndActivateNewChat :: "jsstring \<Rightarrow> nat \<Rightarrow> kstate \<Rightarrow> kstate" where
  "createAndActivateNewChat chatId now s =
    (let newChat = \<lparr>title = js ''New Chat'', chat_createdAt = now, messages = []\<rparr>
     in s\<lparr>chats := obj_set chatId newChat (chats s), activeChatId := Some chatId\<rparr>)"

definition initialize :: "jsstring \<Rightarrow> nat \<Rightarrow> kstate" where
  "initialize chatId now = createAndActivateNewChat chatId now initialState"

definition switchChat :: "jsstring \<Rightarrow> kstate \<Rightarrow> kstate" where
  "switchChat chatId s = s\<lparr>activeChatId := Some chatId\<rparr>"

text \<open>
  \<open>deleteChat\<close>; \<open>fresh\<close> and \<open>now\<close> are what \<open>generateId\<close> and \<open>new Date\<close> give if a
  chat is created. \<open>!nextChatId\<close> holds for \<open>undefined\<close> and for the empty string.
\<close>

definition deleteChat :: "jsstring \<Rightarrow> jsstring \<Rightarrow> nat \<Rightarrow> kstate \<Rightarrow> kstate" where
  "deleteChat chatId fresh now s =
    (let s1 = (if activeChatId s = Some chatId then
                 (case find (\<lambda>id'. id' \<noteq> chatId) (map fst (chats s)) of
                    None \<Rightarrow> createAndActivateNewChat fresh now s
                  | Some nextChatId \<Rightarrow>
                      if nextChatId = [] then createAndActivateNewChat fresh now s
                      else s\<lparr>activeChatId := Some nextChatId\<rparr>)
               else s)
     in s1\<lparr>chats := AList.delete chatId (chats s1)\<rparr>)"

subsection \<open>Abort and the exit listener\<close>

definition clear_working :: "agent \<Rightarrow> agent" where
  "clear_working a = a\<lparr>karton := map_option (\<lambda>s. s\<lparr>isWorking := False\<rparr>) (karton a)\<rparr>"

definition abort :: "agent \<Rightarrow> agent" where
  "abort a =
    (let a1 = (case currentProcess a of
                 None \<Rightarrow> a
               | Some h \<Rightarrow> a\<lparr>effects := effects a @ [Kill (pid h)], currentProcess := None\<rparr>)
     in clear_working a1)"

fun invoke :: "callback \<Rightarrow> int option \<Rightarrow> agent \<Rightarrow> agent" where
  "invoke ClearWorking code a =
     clear_working (a\<lparr>effects := effects a @ [Invoked ClearWorking code]\<rparr>)"

text \<open>The listener of line 39: \<open>onExit?.(code)\<close>.\<close>

definition exit_listener :: "ProcessHandle \<Rightarrow> int option \<Rightarrow> agent \<Rightarrow> agent" where
  "exit_listener h code a = (case onExit h of None \<Rightarrow> a | Some cb \<Rightarrow> invoke cb code a)"

subsection \<open>Stream events\<close>

record content_fragment =
  ftype :: jsstring
  ftext :: "jsstring option"

text \<open>\<open>ev_content\<close> is \<open>event.message?.content\<close>.\<close>

record StreamEvent =
  ev_type :: jsstring
  subtype :: "jsstring option"
  ev_content :: "content_fragment list option"
  ev_result :: "jsstring option"
  session_id :: "jsstring option"

fun findIndex :: "('a \<Rightarrow> bool) \<Rightarrow> 'a list \<Rightarrow> nat option" where
  "findIndex P [] = None"
| "findIndex P (x # xs) = (if P x then Some 0 else map_option Suc (findIndex P xs))"

definition textContent_of :: "StreamEvent \<Rightarrow> jsstring option" where
  "textContent_of event =
     map_option
       (\<lambda>cs. concat (map (\<lambda>c. case ftext c of None \<Rightarrow> [] | Some t \<Rightarrow> t)
                         (filter (\<lambda>c. ftype c = js ''text'') cs)))
       (ev_content event)"

definition text_part :: "jsstring \<Rightarrow> part" where
  "text_part t = \<lparr>ptype = js ''text'', ptext = Some t, pdata = None, mimeType = None\<rparr>"

text \<open>
  The recipes handed to \<open>setState\<close>. Reading \<open>.messages\<close> of a chat that is not there
  throws; the draft is then dropped and the state stays as it was.
\<close>

definition push_message :: "jsstring \<Rightarrow> ChatMessage \<Rightarrow> kstate \<Rightarrow> error + kstate" where
  "push_message chatId msg draft =
    (case map_of (chats draft) chatId of
       None \<Rightarrow> Inl TypeError
     | Some chat \<Rightarrow>
         Inr (draft\<lparr>chats :=
                AList.update chatId (chat\<lparr>messages := messages chat @ [msg]\<rparr>) (chats draft)\<rparr>))"

definition replace_text :: "jsstring \<Rightarrow> jsstring \<Rightarrow> jsstring \<Rightarrow> kstate \<Rightarrow> error + kstate" where
  "replace_text chatId assistantMessageId textContent' draft =
    (case map_of (chats draft) chatId of
       None \<Rightarrow> Inl TypeError
     | Some chat \<Rightarrow>
         (let msgs = messages chat
          in case findIndex (\<lambda>m. msg_id m = assistantMessageId) msgs of
               None \<Rightarrow> Inr draft
             | Some msgIndex \<Rightarrow>
                 (let existingParts = parts (msgs ! msgIndex);
                      newParts =
                        (case findIndex (\<lambda>p. ptype p = js ''text'') existingParts of
                           Some textPartIndex \<Rightarrow>
                             existingParts[textPartIndex :=
                               (existingParts ! textPartIndex)\<lparr>ptext := Some textContent'\<rparr>]
                         | None \<Rightarrow> existingParts @ [text_part textContent']);
                      msgs' = msgs[msgIndex := (msgs ! msgIndex)\<lparr>parts := newParts\<rparr>]
                  in Inr (draft\<lparr>chats :=
                            AList.update chatId (chat\<lparr>messages := msgs'\<rparr>) (chats draft)\<rparr>))))"

definition handleStreamEvent ::
  "StreamEvent \<Rightarrow> jsstring \<Rightarrow> jsstring \<Rightarrow> agent \<Rightarrow> error + agent" where
  "handleStreamEvent event chatId assistantMessageId a =
    (case karton a of
       None \<Rightarrow> Inr a
     | Some s \<Rightarrow>
         if ev_type event = js ''assistant'' then
           (case textContent_of event of
              None \<Rightarrow> Inr a
            | Some t \<Rightarrow>
                if t \<noteq> [] then
                  (case replace_text chatId assistantMessageId t s of
                     Inl err \<Rightarrow> Inl err
                   | Inr s' \<Rightarrow> Inr (a\<lparr>karton := Some s'\<rparr>))
                else Inr a)
         else Inr a)"

subsection \<open>A turn\<close>

text \<open>
  \<open>handleUserMessage\<close> runs without interruption up to its read loop; the loop awaits the
  decoder, and while it waits the exit listener and the other procedures of the server
  can run. A turn is therefore given the outcome of \<open>spawn\<close>, the identifier and time used
  for the placeholder, and the sequence of what happens during the loop: an event the
  decoder yields, a failure of the read, the exit of the child, or a procedure called by
  the client.
\<close>

record turn_env =
  spawn_outcome :: spawn_outcome
  assistantMessageId :: jsstring
  now :: nat

datatype procedure =
  AbortAgentCall
| CreateChat jsstring nat
| SwitchChat jsstring
| DeleteChat jsstring jsstring nat

datatype step =
  Event StreamEvent
| ReadFails
| ProcessExit "int option"
| Call procedure

fun on_state :: "(kstate \<Rightarrow> kstate) \<Rightarrow> agent \<Rightarrow> agent" where
  "on_state f a = a\<lparr>karton := map_option f (karton a)\<rparr>"

fun run_procedure :: "procedure \<Rightarrow> agent \<Rightarrow> agent" where
  "run_procedure AbortAgentCall a = abort a"
| "run_procedure (CreateChat chatId t) a = on_state (createAndActivateNewChat chatId t) a"
| "run_procedure (SwitchChat chatId) a = on_state (switchChat chatId) a"
| "run_procedure (DeleteChat chatId fresh t) a = on_state (deleteChat chatId fresh t) a"

text \<open>
  The \<open>for await\<close> loop inside \<open>try\<close>: an exception of the read or of the handler leaves
  the loop, and the state is the one reached so far.
\<close>

fun read_loop :: "ProcessHandle \<Rightarrow> jsstring \<Rightarrow> jsstring \<Rightarrow> step list \<Rightarrow> agent \<Rightarrow> agent" where
  "read_loop h chatId mid [] a = a"
| "read_loop h chatId mid (Event event # rest) a =
     (case handleStreamEvent event chatId mid a of
        Inl err \<Rightarrow> a
      | Inr a' \<Rightarrow> read_loop h chatId mid rest a')"
| "read_loop h chatId mid (ReadFails # rest) a = a"
| "read_loop h chatId mid (ProcessExit code # rest) a =
     read_loop h chatId mid rest (exit_listener h code a)"
| "read_loop h chatId mid (Call p # rest) a =
     read_loop h chatId mid rest (run_procedure p a)"

definition placeholder :: "jsstring \<Rightarrow> nat \<Rightarrow> ChatMessage" where
  "placeholder mid t =
     \<lparr>msg_id = mid, msg_role = Assistant, parts = [],
      metadata = Some \<lparr>createdAt = t, selectedElements = None, pluginContentItems = None\<rparr>\<rparr>"

text \<open>
  The part of \<open>handleUserMessage\<close> before the read loop (lines 108 to 153). It returns
  early, ends with an exception, or reaches the loop with the handle and the chat id it
  holds. The second argument of \<open>spawnClaudeCode\<close> at line 134 is the arrow function, and
  no third argument is given.
\<close>

datatype begun =
  Returned agent
| Thrown agent error
| Reading agent ProcessHandle jsstring

definition begin_turn :: "ChatMessage \<Rightarrow> turn_env \<Rightarrow> agent \<Rightarrow> begun" where
  "begin_turn msg env a =
    (case karton a of
       None \<Rightarrow> Returned a
     | Some s \<Rightarrow>
        (case activeChatId s of
           None \<Rightarrow> Returned a
         | Some chatId \<Rightarrow>
            if chatId = [] then Returned a
            else
             (case push_message chatId msg (s\<lparr>isWorking := True\<rparr>) of
                Inl err \<Rightarrow> Thrown a err
              | Inr s1 \<Rightarrow>
                 (let a1 = a\<lparr>karton := Some s1\<rparr>;
                      streamJsonMessage = buildStreamJsonMessage (compose_input msg)
                  in case spawnClaudeCode (config a1) (Closure ClearWorking) None
                            (spawn_outcome env) of
                       Inl err \<Rightarrow> Thrown a1 err
                     | Inr h \<Rightarrow>
                        (let a2 = a1\<lparr>currentProcess := Some h,
                                     effects := effects a1 @
                                       [Spawn h, StdinWrite (pid h) streamJsonMessage,
                                        StdinEnd (pid h)]\<rparr>
                         in case push_message chatId
                                   (placeholder (assistantMessageId env) (now env)) s1 of
                              Inl err \<Rightarrow> Thrown a2 err
                            | Inr s2 \<Rightarrow> Reading (a2\<lparr>karton := Some s2\<rparr>) h chatId)))))"

text \<open>
  \<open>handleUserMessage\<close>: the agent as it is left, and the exception the call ends with, if
  any. After the loop (step 7) the handle is released and \<open>isWorking\<close> is cleared.
\<close>

definition handleUserMessage ::
  "ChatMessage \<Rightarrow> turn_env \<Rightarrow> step list \<Rightarrow> agent \<Rightarrow> agent \<times> error option" where
  "handleUserMessage msg env steps a =
    (case begin_turn msg env a of
       Returned a' \<Rightarrow> (a', None)
     | Thrown a' err \<Rightarrow> (a', Some err)
     | Reading a3 h chatId \<Rightarrow>
         (let a4 = read_loop h chatId (assistantMessageId env) steps a3
          in (clear_working (a4\<lparr>currentProcess := None\<rparr>), None)))"

subsection \<open>Notions used to state the properties\<close>

text \<open>The text an \<open>assistant\<close> event carries; empty for every other event.\<close>

definition event_text :: "StreamEvent \<Rightarrow> jsstring" where
  "event_text event =
     (if ev_type event = js ''assistant''
      then (case textContent_of event of None \<Rightarrow> [] | Some t \<Rightarrow> t)
      else [])"

fun last_nonempty :: "jsstring list \<Rightarrow> jsstring option" where
  "last_nonempty [] = None"
| "last_nonempty (t # ts) =
     (case last_nonempty ts of
        Some t' \<Rightarrow> Some t'
      | None \<Rightarrow> if t \<noteq> [] then Some t else None)"

text \<open>The first message with a given id in a given chat, as \<open>findIndex\<close> finds it.\<close>

definition find_message :: "jsstring \<Rightarrow> jsstring \<Rightarrow> agent \<Rightarrow> ChatMessage option" where
  "find_message chatId mid a =
    (case karton a of
       None \<Rightarrow> None
     | Some s \<Rightarrow>
        (case map_of (chats s) chatId of
           None \<Rightarrow> None
         | Some chat \<Rightarrow> find (\<lambda>m. msg_id m = mid) (messages chat)))"

text \<open>What the client sees of the chats: the active chat id and the chats.\<close>

definition chat_view :: "agent \<Rightarrow> (jsstring option \<times> (jsstring \<times> Chat) list) option" where
  "chat_view a = map_option (\<lambda>s. (activeChatId s, chats s)) (karton a)"

text \<open>
  The session invariant in the words of the specification: at most one chat is the active
  one, and if any chat exists then \<open>activeChatId\<close> is not null.
\<close>

definition session_invariant :: "kstate \<Rightarrow> bool" where
  "session_invariant s \<longleftrightarrow>
     length (filter (\<lambda>kv. activeChatId s = Some (fst kv)) (chats s)) \<le> 1
     \<and> (chats s \<noteq> [] \<longrightarrow> activeChatId s \<noteq> None)"

subsection \<open>A running example\<close>

definition example_config :: ClaudeCodeAgentConfig where
  "example_config =
     \<lparr>command = js ''claude'', cwd = js ''/work'', skipPermissions = True,
      appendSystemPrompt = None, allowedTools = None\<rparr>"

definition example_agent :: agent where
  "example_agent =
     \<lparr>karton = Some (initialize (js ''c1'') 0), config = example_config,
      currentProcess = None, effects = []\<rparr>"

definition example_message :: ChatMessage where
  "example_message =
     \<lparr>msg_id = js ''u1'', msg_role = User, parts = [text_part (js ''hi'')],
      metadata = None\<rparr>"

definition example_env :: turn_env where
  "example_env = \<lparr>spawn_outcome = Child 7, assistantMessageId = js ''m1'', now = 1\<rparr>"

definition assistant_event :: "content_fragment list \<Rightarrow> StreamEvent" where
  "assistant_event cs =
     \<lparr>ev_type = js ''assistant'', subtype = None, ev_content = Some cs,
      ev_result = None, session_id = None\<rparr>"

definition text_fragment :: "jsstring \<Rightarrow> content_fragment" where
  "text_fragment t = \<lparr>ftype = js ''text'', ftext = Some t\<rparr>"

text \<open>No callback has been run between two states of the agent.\<close>

definition no_new_invocation :: "agent \<Rightarrow> agent \<Rightarrow> bool" where
  "no_new_invocation a b \<longleftrightarrow>
     (\<forall>cb code. Invoked cb code \<in> set (effects b) \<longrightarrow> Invoked cb code \<in> set (effects a))"

definition two_chats :: kstate where
  "two_chats =
     \<lparr>activeChatId = Some (js ''c1''),
      chats = [(js ''c1'', \<lparr>title = js ''New Chat'', chat_createdAt = 0, messages = []\<rparr>),
               (js ''c2'', \<lparr>title = js ''New Chat'', chat_createdAt = 1, messages = []\<rparr>)],
      isWorking = False\<rparr>"

text \<open>The state with the parts of message \<open>i\<close> of a chat replaced.\<close>

definition put_parts :: "jsstring \<Rightarrow> Chat \<Rightarrow> nat \<Rightarrow> part list \<Rightarrow> kstate \<Rightarrow> kstate" where
  "put_parts chatId chat i ps s =
     s\<lparr>chats := AList.update chatId
          (chat\<lparr>messages := (messages chat)[i := (messages chat ! i)\<lparr>parts := ps\<rparr>]\<rparr>)
          (chats s)\<rparr>"

definition with_parts :: "Chat \<Rightarrow> nat \<Rightarrow> part list \<Rightarrow> Chat" where
  "with_parts chat i ps =
     chat\<lparr>messages := (messages chat)[i := (messages chat ! i)\<lparr>parts := ps\<rparr>]\<rparr>"

text \<open>An \<open>assistant\<close> event whose content has no text fragment.\<close>

definition tool_use_event :: StreamEvent where
  "tool_use_event = assistant_event [\<lparr>ftype = js ''tool_use'', ftext = None\<rparr>]"

text \<open>
  The example turn at its read loop: what \<open>begin_turn\<close> gives for the example agent,
  message and environment.
\<close>

definition example_handle :: ProcessHandle where
  "example_handle =
     \<lparr>pid = 7, spawn_file = js ''claude'',
      spawn_args = map Str [js ''-p'', js ''--input-format'', js ''stream-json'',
          js ''--output-format'', js ''stream-json'', js ''--verbose'', js ''--resume'']
        @ [Closure ClearWorking, Str (js ''--dangerously-skip-permissions'')],
      spawn_cwd = js ''/work'', onExit = None\<rparr>"

definition example_chat :: Chat where
  "example_chat =
     \<lparr>title = js ''New Chat'', chat_createdAt = 0,
      messages = [example_message, placeholder (js ''m1'') 1]\<rparr>"

definition example_state :: kstate where
  "example_state =
     \<lparr>activeChatId = Some (js ''c1''), chats = [(js ''c1'', example_chat)],
      isWorking = True\<rparr>"

definition example_reading :: agent where
  "example_reading =
     example_agent\<lparr>karton := Some example_state,
       currentProcess := Some example_handle,
       effects := [Spawn example_handle,
                   StdinWrite 7 (buildStreamJsonMessage (compose_input example_message)),
                   StdinEnd 7]\<rparr>"

section \<open>Properties of the prompt builder\<close>

lemma push_screenshots_map:
  "push_screenshots acc ss = acc @ map spec_image ss"
  by (induction ss arbitrary: acc) (simp_all add: spec_image_def)

lemma buildPromptText_spec: "buildPromptText input = spec_text input"
  by (simp add: buildPromptText_def spec_text_def spec_dom_block_def spec_plugin_block_def
      split: option.splits)

text \<open>
  Claim C7. The content of the wire message is one base64 image of media type
  \<open>image/png\<close> per screenshot, in input order, followed by exactly one text item: the DOM
  block (when present), the plugin block joining the snippets with newlines (when any),
  and the user text, each block followed by a blank line. The message has type and role
  \<open>user\<close>. For the screenshots AAA and BBB and the text hi, the content is the two images and
  the text hi.
\<close>

theorem buildStreamJsonMessage_content:
  "buildStreamJsonMessage input =
     \<lparr>msg_type = js ''user'',
      message = \<lparr>role = js ''user'', content = spec_content input\<rparr>\<rparr>
   \<and> content (message (buildStreamJsonMessage
         \<lparr>text_in = js ''hi'', domContext = None,
          screenshots = Some [js ''AAA'', js ''BBB''], pluginSnippets = None\<rparr>))
       = [Image_item (js ''base64'') (js ''image/png'') (js ''AAA''),
          Image_item (js ''base64'') (js ''image/png'') (js ''BBB''),
          Text_item (js ''hi'')]"
  by (simp add: buildStreamJsonMessage_def push_screenshots_map buildPromptText_spec
      spec_content_def spec_text_def spec_dom_block_def spec_plugin_block_def spec_image_def)

section \<open>Properties of the stream decoder\<close>

lemma split_on_not_Nil: "split_on sep xs \<noteq> []"
  by (induction xs) (auto split: list.splits)

lemma split_on_no_sep: "sep \<notin> set xs \<Longrightarrow> split_on sep xs = [xs]"
  by (induction xs) auto

lemma last_split_on_no_sep: "sep \<notin> set (last (split_on sep xs))"
  by (induction xs) (auto split: list.splits simp: split_on_not_Nil)

lemma split_on_append:
  "split_on sep (xs @ ys)
     = butlast (split_on sep xs) @ split_on sep (last (split_on sep xs) @ ys)"
proof (induction xs)
  case Nil
  show ?case by simp
next
  case (Cons x xs)
  show ?case
  proof (cases "x = sep")
    case True
    with Cons show ?thesis by (simp add: split_on_not_Nil)
  next
    case False
    obtain p ps where sp: "split_on sep xs = p # ps"
      using split_on_not_Nil [of sep xs] by (cases "split_on sep xs") auto
    show ?thesis
    proof (cases ps)
      case Nil
      with sp False Cons show ?thesis by simp
    next
      case (Cons q qs)
      with sp False Cons.IH show ?thesis by simp
    qed
  qed
qed

lemma read_chunks_text:
  "NL \<notin> set buffer \<Longrightarrow>
   read_chunks JSON_parse buffer chunks
     = decode_text JSON_parse (buffer @ concat (map toString chunks))"
proof (induction chunks arbitrary: buffer)
  case Nil
  then show ?case by (simp add: decode_text_def split_on_no_sep)
next
  case (Cons chunk rest)
  let ?b1 = "buffer @ toString chunk"
  let ?t = "concat (map toString rest)"
  have ih: "read_chunks JSON_parse (last (split_on NL ?b1)) rest
              = decode_text JSON_parse (last (split_on NL ?b1) @ ?t)"
    by (rule Cons.IH) (rule last_split_on_no_sep)
  have sp: "split_on NL (?b1 @ ?t)
              = butlast (split_on NL ?b1) @ split_on NL (last (split_on NL ?b1) @ ?t)"
    by (rule split_on_append)
  show ?case
    using ih sp
    by (simp add: pop_def split_on_not_Nil decode_text_def butlast_append Let_def)
qed

lemma parseStreamJson_text:
  "parseStreamJson JSON_parse chunks
     = decode_text JSON_parse (concat (map toString chunks))"
  using read_chunks_text [of "[]" JSON_parse chunks] by (simp add: parseStreamJson_def)

text \<open>
  Chunkings that decode to the same text give the same output; this is so whenever no
  character is split between chunks.
\<close>

lemma chunking_same_text:
  "concat (map toString cs1) = concat (map toString cs2) \<Longrightarrow>
   parseStreamJson JSON_parse cs1 = parseStreamJson JSON_parse cs2"
  by (simp add: parseStreamJson_text)


text \<open>Bytes below 0x80 decode one by one, so for such output every chunking agrees.\<close>

lemma utf8_decode_ascii_append:
  "\<forall>b \<in> set xs. b < 0x80 \<Longrightarrow> utf8_decode (xs @ ys) = utf8_decode xs @ utf8_decode ys"
  by (induction xs) simp_all

lemma toString_ascii_chunks:
  "\<forall>b \<in> set (concat cs). b < 0x80 \<Longrightarrow> concat (map toString cs) = toString (concat cs)"
  by (induction cs) (simp_all add: toString_def utf8_decode_ascii_append)

lemma chunking_ascii:
  assumes "concat cs1 = concat cs2" and "\<forall>b \<in> set (concat cs1). b < 0x80"
  shows "parseStreamJson JSON_parse cs1 = parseStreamJson JSON_parse cs2"
proof (rule chunking_same_text)
  from assms have "\<forall>b \<in> set (concat cs2). b < 0x80" by simp
  with assms show "concat (map toString cs1) = concat (map toString cs2)"
    by (simp add: toString_ascii_chunks)
qed

lemma decode_text_lines:
  "split_on NL t = before @ [l1, bad, l2] @ after \<Longrightarrow>
   decode_text JSON_parse t
     = concat (map (parse_line JSON_parse) before)
       @ parse_line JSON_parse l1 @ parse_line JSON_parse bad
       @ (if after = [] then parse_final JSON_parse l2
          else parse_line JSON_parse l2
               @ concat (map (parse_line JSON_parse) (butlast after))
               @ parse_final JSON_parse (last after))"
  by (cases "after = []") (simp_all add: decode_text_def butlast_append)

text \<open>
  Claim C8. If the decoded text has a malformed line (not empty once trimmed, and rejected
  by \<open>JSON.parse\<close>) between two valid lines, then, whatever the chunking, the decoder
  emits what the lines before give, then the event of the first valid line, one warning
  carrying the trimmed malformed line, the event of the second valid line, and then all
  that the rest of the stream gives: the malformed line stops nothing.
\<close>

theorem malformed_line_is_skipped:
  assumes lines: "split_on NL (concat (map toString chunks)) = before @ [l1, bad, l2] @ after"
    and l1: "trim l1 \<noteq> []" "JSON_parse (trim l1) = Some e1"
    and bad: "trim bad \<noteq> []" "JSON_parse (trim bad) = None"
    and l2: "trim l2 \<noteq> []" "JSON_parse (trim l2) = Some e2"
  shows "parseStreamJson JSON_parse chunks
     = concat (map (parse_line JSON_parse) before)
       @ [Yield e1, Warn (js ''[stream-parser] Failed to parse line:'') (trim bad), Yield e2]
       @ (if after = [] then []
          else concat (map (parse_line JSON_parse) (butlast after))
               @ parse_final JSON_parse (last after))"
  using l1 bad l2
  by (simp add: parseStreamJson_text decode_text_lines [OF lines] parse_line_def
      parse_final_def)

theorem malformed_line_is_skipped_witness:
  "parseStreamJson (\<lambda>s. if s = js ''b'' then None else Some s)
     [[0x61, 0x0A, 0x62], [0x0A, 0x63, 0x0A, 0x64]]
   = [Yield (js ''a''), Warn (js ''[stream-parser] Failed to parse line:'') (js ''b''),
      Yield (js ''c''), Yield (js ''d'')]"
proof -
  let ?p = "\<lambda>s. if s = js ''b'' then None else Some s"
  have lines: "split_on NL (concat (map toString [[0x61, 0x0A, 0x62], [0x0A, 0x63, 0x0A, 0x64]]))
      = [] @ [js ''a'', js ''b'', js ''c''] @ [js ''d'']"
    by (simp add: toString_def NL_def js_def)
  have t: "trim (js ''a'') = js ''a''" "trim (js ''b'') = js ''b''"
    "trim (js ''c'') = js ''c''" "trim (js ''d'') = js ''d''"
    by (simp_all add: trim_def js_def is_js_space_def)
  have neq: "js ''a'' \<noteq> js ''b''" "js ''c'' \<noteq> js ''b''" "js ''d'' \<noteq> js ''b''"
    "js ''a'' \<noteq> []" "js ''b'' \<noteq> []" "js ''c'' \<noteq> []" "js ''d'' \<noteq> []"
    by (simp_all add: js_def)
  show ?thesis
    using malformed_line_is_skipped [OF lines, of ?p "js ''a''" "js ''c''"]
    by (simp add: t neq parse_final_def)
qed

text \<open>
  Claim C3, at a character split between two chunks. The five bytes of a JSON string
  holding U+00E9 and a newline give, as one chunk, the line with U+00E9; given one byte per
  chunk, the two bytes of the character are decoded apart, and the line handed to
  \<open>JSON.parse\<close> holds two U+FFFD instead. The two chunkings of the same bytes do not give
  the same events.
\<close>

theorem parseStreamJson_split_character:
  "parseStreamJson JSON_parse [[0x22, 0xC3, 0xA9, 0x22, 0x0A]]
     = parse_line JSON_parse [0x22, 0xE9, 0x22]
   \<and> parseStreamJson JSON_parse [[0x22], [0xC3], [0xA9], [0x22], [0x0A]]
     = parse_line JSON_parse [0x22, 0xFFFD, 0xFFFD, 0x22]
   \<and> parseStreamJson Some [[0x22, 0xC3, 0xA9, 0x22, 0x0A]]
     \<noteq> parseStreamJson Some [[0x22], [0xC3], [0xA9], [0x22], [0x0A]]"
  by (simp add: parseStreamJson_text decode_text_def toString_def NL_def is_cont_def
      two_bytes_def REPLACEMENT_def parse_final_def parse_line_def trim_def is_js_space_def)

section \<open>Properties of the agent\<close>

lemma obj_set_Nil: "obj_set k v [] = [(k, v)]"
  by (simp add: obj_set_def split: option.splits)

lemma delete_obj_set_single:
  "fresh \<noteq> c \<Longrightarrow> AList.delete c (obj_set fresh v [(c, ch)]) = [(fresh, v)]"
  by (simp add: obj_set_def split: option.splits)

lemma map_of_update_same: "map_of (AList.update k v al) k = Some v"
  by (simp add: update_conv')

lemma push_message_Inr:
  "map_of (chats s) c = Some chat \<Longrightarrow>
   push_message c m s
     = Inr (s\<lparr>chats := AList.update c (chat\<lparr>messages := messages chat @ [m]\<rparr>) (chats s)\<rparr>)"
  by (simp add: push_message_def)

lemma spawnClaudeCode_Child:
  "\<exists>h. spawnClaudeCode cfg sid oe (Child p) = Inr h \<and> pid h = p \<and> onExit h = oe"
  by (simp add: spawnClaudeCode_def Let_def)

lemma begin_turn_Reading_eq:
  assumes "karton a = Some s" "activeChatId s = Some c" "c \<noteq> []"
    "map_of (chats s) c = Some chat" "spawn_outcome env = Child p"
  shows "\<exists>a3 h. begin_turn msg env a = Reading a3 h c
           \<and> spawnClaudeCode (config a) (Closure ClearWorking) None (Child p) = Inr h
           \<and> currentProcess a3 = Some h
           \<and> (\<exists>s3. karton a3 = Some s3 \<and> isWorking s3)
           \<and> effects a3 = effects a @ [Spawn h,
                 StdinWrite (pid h) (buildStreamJsonMessage (compose_input msg)),
                 StdinEnd (pid h)]"
proof -
  obtain h where h: "spawnClaudeCode (config a) (Closure ClearWorking) None (Child p) = Inr h"
    using spawnClaudeCode_Child by blast
  show ?thesis
    using assms h
    by (simp add: begin_turn_def push_message_def map_of_update_same Let_def)
qed

lemma begin_turn_Thrown_eq:
  assumes "karton a = Some s" "activeChatId s = Some c" "c \<noteq> []"
    "map_of (chats s) c = Some chat" "spawn_outcome env = Throws r"
  shows "begin_turn msg env a
     = Thrown (a\<lparr>karton := Some (s\<lparr>isWorking := True,
                 chats := AList.update c (chat\<lparr>messages := messages chat @ [msg]\<rparr>) (chats s)\<rparr>)\<rparr>)
         (SpawnError r)"
  using assms
  by (simp add: begin_turn_def push_message_def spawnClaudeCode_def Let_def)

lemma karton_clear_working:
  "karton (clear_working a) = map_option (\<lambda>s. s\<lparr>isWorking := False\<rparr>) (karton a)"
  by (simp add: clear_working_def)

lemma handleStreamEvent_karton:
  "handleStreamEvent e c m a = Inr a' \<Longrightarrow> karton a \<noteq> None \<Longrightarrow> karton a' \<noteq> None"
  by (auto simp: handleStreamEvent_def split: option.splits if_splits sum.splits)

lemma run_procedure_karton: "karton a \<noteq> None \<Longrightarrow> karton (run_procedure p a) \<noteq> None"
  by (cases p) (auto simp: abort_def clear_working_def split: option.splits)

lemma exit_listener_karton: "karton a \<noteq> None \<Longrightarrow> karton (exit_listener h code a) \<noteq> None"
  by (cases "onExit h"; cases "the (onExit h)") (auto simp: exit_listener_def clear_working_def)

lemma read_loop_karton:
  "karton a \<noteq> None \<Longrightarrow> karton (read_loop h c m steps a) \<noteq> None"
proof (induction steps arbitrary: a)
  case Nil
  then show ?case by simp
next
  case (Cons st steps)
  show ?case
  proof (cases st)
    case (Event e)
    show ?thesis
    proof (cases "handleStreamEvent e c m a")
      case (Inl err)
      with Event Cons.prems show ?thesis by simp
    next
      case (Inr a')
      with Event Cons.prems Cons.IH [of a'] handleStreamEvent_karton [OF Inr]
      show ?thesis by simp
    qed
  next
    case ReadFails
    with Cons.prems show ?thesis by simp
  next
    case (ProcessExit code)
    with Cons.IH [of "exit_listener h code a"] exit_listener_karton [OF Cons.prems]
    show ?thesis by simp
  next
    case (Call p)
    with Cons.IH [of "run_procedure p a"] run_procedure_karton [OF Cons.prems]
    show ?thesis by simp
  qed
qed

text \<open>
  Claim C10. When the agent is not initialised (\<open>karton\<close> is null) or no chat is active
  (\<open>activeChatId\<close> is null), \<open>handleUserMessage\<close> returns with the agent exactly as it
  was, whatever the message and whatever would have happened during a turn: no field of
  the state changes, no message is appended, nothing is spawned, and no exception is
  raised.
\<close>

theorem handleUserMessage_no_active_chat:
  "karton a = None \<or> (\<exists>s. karton a = Some s \<and> activeChatId s = None) \<Longrightarrow>
   handleUserMessage msg env steps a = (a, None)"
  by (auto simp: handleUserMessage_def begin_turn_def)

theorem handleUserMessage_no_active_chat_witness:
  "handleUserMessage example_message example_env [Event (assistant_event [text_fragment (js ''x'')])]
     (example_agent\<lparr>karton := None\<rparr>) = (example_agent\<lparr>karton := None\<rparr>, None)
   \<and> handleUserMessage example_message example_env [Event (assistant_event [text_fragment (js ''x'')])]
     (example_agent\<lparr>karton := Some initialState\<rparr>)
       = (example_agent\<lparr>karton := Some initialState\<rparr>, None)"
  using handleUserMessage_no_active_chat [of "example_agent\<lparr>karton := None\<rparr>"]
    handleUserMessage_no_active_chat [of "example_agent\<lparr>karton := Some initialState\<rparr>"]
  by (simp add: initialState_def)

text \<open>
  Claim C5, at a spawn that fails. With an active chat: when \<open>spawn\<close> throws,
  \<open>handleUserMessage\<close> ends with the spawn error, so the failure reaches the caller, but
  the state it leaves has \<open>isWorking\<close> true, with the user message appended and no process
  handle; nothing on this path clears the flag. When \<open>spawn\<close> returns a child,
  \<open>handleUserMessage\<close> ends without an exception whatever happens afterwards, so a
  failure the child reports later is never a failure of the call.
\<close>

theorem spawn_failure_leaves_isWorking:
  assumes "karton a = Some s" "activeChatId s = Some c" "c \<noteq> []"
    "map_of (chats s) c = Some chat"
  shows "(spawn_outcome env = Throws r \<longrightarrow>
            handleUserMessage msg env steps a
              = (a\<lparr>karton := Some (s\<lparr>isWorking := True,
                     chats := AList.update c (chat\<lparr>messages := messages chat @ [msg]\<rparr>)
                                (chats s)\<rparr>)\<rparr>,
                 Some (SpawnError r)))
       \<and> (spawn_outcome env = Child p \<longrightarrow>
            snd (handleUserMessage msg env steps a) = None)"
proof (intro conjI impI)
  assume t: "spawn_outcome env = Throws r"
  show "handleUserMessage msg env steps a
          = (a\<lparr>karton := Some (s\<lparr>isWorking := True,
                 chats := AList.update c (chat\<lparr>messages := messages chat @ [msg]\<rparr>)
                            (chats s)\<rparr>)\<rparr>,
             Some (SpawnError r))"
    by (simp add: handleUserMessage_def begin_turn_Thrown_eq [OF assms t])
next
  assume ch: "spawn_outcome env = Child p"
  from begin_turn_Reading_eq [OF assms ch, of msg]
  obtain a3 h where "begin_turn msg env a = Reading a3 h c" by blast
  then show "snd (handleUserMessage msg env steps a) = None"
    by (simp add: handleUserMessage_def Let_def)
qed

text \<open>
  Claim C2, over every path of a turn. For a user message submitted to an active chat,
  whatever the decoder yields and whatever procedures (abort among them), read failures
  and process exits fall into the read loop, the state \<open>handleUserMessage\<close> leaves has
  \<open>isWorking\<close> true exactly when \<open>spawn\<close> threw: the turns that reach the read loop end
  with the flag cleared, and the turn whose spawn throws ends with the flag still set.
\<close>

theorem isWorking_after_turn:
  assumes "karton a = Some s" "activeChatId s = Some c" "c \<noteq> []"
    "map_of (chats s) c = Some chat"
  shows "\<exists>s'. karton (fst (handleUserMessage msg env steps a)) = Some s'
            \<and> (isWorking s' \<longleftrightarrow> (\<exists>r. spawn_outcome env = Throws r))"
proof (cases "spawn_outcome env")
  case (Throws r)
  then show ?thesis
    by (simp add: handleUserMessage_def begin_turn_Thrown_eq [OF assms Throws])
next
  case (Child p)
  from begin_turn_Reading_eq [OF assms Child, of msg]
  obtain a3 h where b: "begin_turn msg env a = Reading a3 h c" and k: "karton a3 \<noteq> None"
    by auto
  from read_loop_karton [OF k, of h c "assistantMessageId env" steps]
  obtain s4 where "karton (read_loop h c (assistantMessageId env) steps a3) = Some s4"
    by auto
  with b Child show ?thesis
    by (simp add: handleUserMessage_def karton_clear_working)
qed


theorem spawn_failure_leaves_isWorking_witness:
  "handleUserMessage example_message (example_env\<lparr>spawn_outcome := Throws (js ''EINVAL'')\<rparr>) []
     example_agent
   = (example_agent\<lparr>karton := Some
        \<lparr>activeChatId = Some (js ''c1''),
         chats = [(js ''c1'', \<lparr>title = js ''New Chat'', chat_createdAt = 0,
                    messages = [example_message]\<rparr>)],
         isWorking = True\<rparr>\<rparr>,
      Some (SpawnError (js ''EINVAL'')))
   \<and> snd (handleUserMessage example_message example_env [ReadFails] example_agent) = None"
proof -
  have k: "karton example_agent = Some (initialize (js ''c1'') 0)"
    and ac: "activeChatId (initialize (js ''c1'') 0) = Some (js ''c1'')"
    and ne: "js ''c1'' \<noteq> []"
    and ch: "map_of (chats (initialize (js ''c1'') 0)) (js ''c1'')
               = Some \<lparr>title = js ''New Chat'', chat_createdAt = 0, messages = []\<rparr>"
    by (simp_all add: example_agent_def initialize_def createAndActivateNewChat_def obj_set_Nil
        initialState_def js_def)
  show ?thesis
    using spawn_failure_leaves_isWorking [OF k ac ne ch,
        of "example_env\<lparr>spawn_outcome := Throws (js ''EINVAL'')\<rparr>" "js ''EINVAL''"
        example_message "[]" 7]
      spawn_failure_leaves_isWorking [OF k ac ne ch, of example_env "js ''EINVAL''"
        example_message "[ReadFails]" 7]
    by (simp add: example_env_def initialize_def createAndActivateNewChat_def obj_set_Nil
        initialState_def)
qed

theorem isWorking_after_turn_witness:
  "(\<exists>s'. karton (fst (handleUserMessage example_message
              (example_env\<lparr>spawn_outcome := Throws (js ''EINVAL'')\<rparr>) [] example_agent)) = Some s'
         \<and> isWorking s')
   \<and> (\<exists>s'. karton (fst (handleUserMessage example_message example_env
              [Event (assistant_event [text_fragment (js ''Hello'')])] example_agent)) = Some s'
         \<and> \<not> isWorking s')"
proof -
  have k: "karton example_agent = Some (initialize (js ''c1'') 0)"
    and ac: "activeChatId (initialize (js ''c1'') 0) = Some (js ''c1'')"
    and ne: "js ''c1'' \<noteq> []"
    and ch: "map_of (chats (initialize (js ''c1'') 0)) (js ''c1'')
               = Some \<lparr>title = js ''New Chat'', chat_createdAt = 0, messages = []\<rparr>"
    by (simp_all add: example_agent_def initialize_def createAndActivateNewChat_def obj_set_Nil
        initialState_def js_def)
  show ?thesis
    using isWorking_after_turn [OF k ac ne ch, of example_message
        "example_env\<lparr>spawn_outcome := Throws (js ''EINVAL'')\<rparr>" "[]"]
      isWorking_after_turn [OF k ac ne ch, of example_message example_env
        "[Event (assistant_event [text_fragment (js ''Hello'')])]"]
    by (simp add: example_env_def)
qed

subsection \<open>The exit listener and the resume flag\<close>

lemma spawnClaudeCode_resume:
  "spawnClaudeCode cfg sid oe (Child p) = Inr h \<Longrightarrow>
   (take 1 (drop 6 (spawn_args h)) = [Str (js ''--resume'')]) = truthy sid"
  by (auto simp: spawnClaudeCode_def Let_def js_def split: option.splits if_splits)

lemma spawnClaudeCode_args_prefix:
  "spawnClaudeCode cfg sid oe (Child p) = Inr h \<Longrightarrow> truthy sid \<Longrightarrow>
   take 8 (spawn_args h)
     = map Str [js ''-p'', js ''--input-format'', js ''stream-json'', js ''--output-format'',
                js ''stream-json'', js ''--verbose'', js ''--resume''] @ [sid]"
  by (auto simp: spawnClaudeCode_def Let_def split: option.splits if_splits)

lemma exit_listener_invokes:
  "onExit h = Some cb \<Longrightarrow>
   effects (exit_listener h code a) = effects a @ [Invoked cb code]"
  by (cases cb) (simp add: exit_listener_def clear_working_def)

lemma handleStreamEvent_effects:
  "handleStreamEvent e c m a = Inr a' \<Longrightarrow> effects a' = effects a"
  by (auto simp: handleStreamEvent_def split: option.splits if_splits sum.splits)

lemma run_procedure_invocations: "no_new_invocation a (run_procedure p a)"
  by (cases p) (auto simp: no_new_invocation_def abort_def clear_working_def split: option.splits)

lemma read_loop_invocations:
  "onExit h = None \<Longrightarrow> no_new_invocation a (read_loop h c m steps a)"
proof (induction steps arbitrary: a)
  case Nil
  show ?case by (simp add: no_new_invocation_def)
next
  case (Cons st steps)
  show ?case
  proof (cases st)
    case (Event e)
    show ?thesis
    proof (cases "handleStreamEvent e c m a")
      case (Inl err)
      with Event show ?thesis by (simp add: no_new_invocation_def)
    next
      case (Inr a')
      with Event Cons.IH [OF Cons.prems, of a'] handleStreamEvent_effects [OF Inr]
      show ?thesis by (simp add: no_new_invocation_def)
    qed
  next
    case ReadFails
    then show ?thesis by (simp add: no_new_invocation_def)
  next
    case (ProcessExit code)
    with Cons.IH [OF Cons.prems, of a] Cons.prems show ?thesis
      by (simp add: exit_listener_def)
  next
    case (Call p)
    with Cons.IH [OF Cons.prems, of "run_procedure p a"] run_procedure_invocations [of a p]
    show ?thesis by (auto simp: no_new_invocation_def)
  qed
qed

text \<open>
  Claim C6, at the call of line 134. In every turn that spawns a child, the arrow function
  that clears \<open>isWorking\<close> is passed in the position of \<open>sessionId\<close>: the arguments of the
  child start with the six fixed flags followed by \<open>--resume\<close> and that function, although
  no session identifier was supplied, and \<open>onExit\<close> is undefined, so the exit listener
  changes nothing for any exit code and no callback is run during the turn.
\<close>

theorem exit_callback_in_sessionId_position:
  assumes "karton a = Some s" "activeChatId s = Some c" "c \<noteq> []"
    "map_of (chats s) c = Some chat" "spawn_outcome env = Child p"
  shows "\<exists>a3 h. begin_turn msg env a = Reading a3 h c
           \<and> currentProcess a3 = Some h \<and> Spawn h \<in> set (effects a3)
           \<and> take 8 (spawn_args h)
               = map Str [js ''-p'', js ''--input-format'', js ''stream-json'',
                          js ''--output-format'', js ''stream-json'', js ''--verbose'',
                          js ''--resume''] @ [Closure ClearWorking]
           \<and> onExit h = None
           \<and> (\<forall>code b. exit_listener h code b = b)
           \<and> no_new_invocation a (fst (handleUserMessage msg env steps a))"
proof -
  from begin_turn_Reading_eq [OF assms, of msg]
  obtain a3 h where b: "begin_turn msg env a = Reading a3 h c"
    and sp: "spawnClaudeCode (config a) (Closure ClearWorking) None (Child p) = Inr h"
    and cur: "currentProcess a3 = Some h"
    and eff: "effects a3 = effects a @ [Spawn h,
                 StdinWrite (pid h) (buildStreamJsonMessage (compose_input msg)),
                 StdinEnd (pid h)]"
    by blast
  from spawnClaudeCode_Child [of "config a" "Closure ClearWorking" None p] sp
  have oe: "onExit h = None" by auto
  have args: "take 8 (spawn_args h)
               = map Str [js ''-p'', js ''--input-format'', js ''stream-json'',
                          js ''--output-format'', js ''stream-json'', js ''--verbose'',
                          js ''--resume''] @ [Closure ClearWorking]"
    by (rule spawnClaudeCode_args_prefix [OF sp]) simp
  have loop: "no_new_invocation a3 (read_loop h c (assistantMessageId env) steps a3)"
    by (rule read_loop_invocations [OF oe])
  have inv: "no_new_invocation a (fst (handleUserMessage msg env steps a))"
    using loop eff b
    by (auto simp: handleUserMessage_def no_new_invocation_def clear_working_def Let_def)
  show ?thesis
    using b cur eff args oe inv by (simp add: exit_listener_def)
qed

theorem exit_callback_in_sessionId_position_witness:
  "\<exists>a3 h. begin_turn example_message example_env example_agent = Reading a3 h (js ''c1'')
      \<and> spawn_args h
          = map Str [js ''-p'', js ''--input-format'', js ''stream-json'',
                     js ''--output-format'', js ''stream-json'', js ''--verbose'',
                     js ''--resume''] @ [Closure ClearWorking,
                     Str (js ''--dangerously-skip-permissions'')]
      \<and> exit_listener h (Some 0) a3 = a3
      \<and> effects (fst (handleUserMessage example_message example_env
                  [ProcessExit (Some 0)] example_agent))
          = [Spawn h, StdinWrite 7 (buildStreamJsonMessage (compose_input example_message)),
             StdinEnd 7]"
proof -
  have k: "karton example_agent = Some (initialize (js ''c1'') 0)"
    and ac: "activeChatId (initialize (js ''c1'') 0) = Some (js ''c1'')"
    and ne: "js ''c1'' \<noteq> []"
    and ch: "map_of (chats (initialize (js ''c1'') 0)) (js ''c1'')
               = Some \<lparr>title = js ''New Chat'', chat_createdAt = 0, messages = []\<rparr>"
    and sp: "spawn_outcome example_env = Child 7"
    by (simp_all add: example_agent_def initialize_def createAndActivateNewChat_def obj_set_Nil
        initialState_def js_def example_env_def)
  from exit_callback_in_sessionId_position [OF k ac ne ch sp, of example_message
      "[ProcessExit (Some 0)]"]
  obtain a3 h where b: "begin_turn example_message example_env example_agent
        = Reading a3 h (js ''c1'')"
    and "onExit h = None"
    by blast
  then show ?thesis
    by (auto simp: begin_turn_def example_agent_def initialize_def obj_set_Nil
        createAndActivateNewChat_def initialState_def example_env_def example_config_def
        spawnClaudeCode_def push_message_def Let_def handleUserMessage_def exit_listener_def
        clear_working_def js_def)
qed

subsection \<open>Deleting the active chat\<close>

text \<open>
  Claim C9. When the active chat is deleted and exactly one other chat exists (with a
  non-empty id, as every id the generator makes), that chat becomes the active one and is
  the only chat left. When the active chat is the only chat and the generated id is
  fresh, the deletion leaves exactly one chat, the new one, and it is active. In both cases
  the session invariant holds afterwards.
\<close>

theorem deleteChat_active:
  assumes "activeChatId s = Some c"
  shows "((chats s = [(c, ch), (d, chd)] \<or> chats s = [(d, chd), (c, ch)]) \<and> d \<noteq> c \<and> d \<noteq> []
            \<longrightarrow> deleteChat c fresh t s = s\<lparr>activeChatId := Some d, chats := [(d, chd)]\<rparr>
                \<and> session_invariant (deleteChat c fresh t s))
       \<and> (chats s = [(c, ch)] \<and> fresh \<noteq> c
            \<longrightarrow> deleteChat c fresh t s
                  = s\<lparr>activeChatId := Some fresh,
                      chats := [(fresh, \<lparr>title = js ''New Chat'', chat_createdAt = t,
                                         messages = []\<rparr>)]\<rparr>
                \<and> session_invariant (deleteChat c fresh t s))"
  using assms
  by (auto simp: deleteChat_def createAndActivateNewChat_def session_invariant_def Let_def
      delete_obj_set_single)

theorem deleteChat_active_witness:
  "deleteChat (js ''c1'') (js ''n1'') 5 two_chats
     = \<lparr>activeChatId = Some (js ''c2''),
        chats = [(js ''c2'', \<lparr>title = js ''New Chat'', chat_createdAt = 1, messages = []\<rparr>)],
        isWorking = False\<rparr>
   \<and> deleteChat (js ''c1'') (js ''n1'') 5 (initialize (js ''c1'') 0)
     = \<lparr>activeChatId = Some (js ''n1''),
        chats = [(js ''n1'', \<lparr>title = js ''New Chat'', chat_createdAt = 5, messages = []\<rparr>)],
        isWorking = False\<rparr>
   \<and> session_invariant (deleteChat (js ''c1'') (js ''n1'') 5 two_chats)
   \<and> session_invariant (deleteChat (js ''c1'') (js ''n1'') 5 (initialize (js ''c1'') 0))"
  using deleteChat_active [of two_chats "js ''c1''"
      "\<lparr>title = js ''New Chat'', chat_createdAt = 0, messages = []\<rparr>" "js ''c2''"
      "\<lparr>title = js ''New Chat'', chat_createdAt = 1, messages = []\<rparr>" "js ''n1''" 5]
    deleteChat_active [of "initialize (js ''c1'') 0" "js ''c1''"
      "\<lparr>title = js ''New Chat'', chat_createdAt = 0, messages = []\<rparr>" "js ''c2''"
      "\<lparr>title = js ''New Chat'', chat_createdAt = 1, messages = []\<rparr>" "js ''n1''" 5]
  by (simp add: two_chats_def initialize_def createAndActivateNewChat_def obj_set_Nil initialState_def
      js_def session_invariant_def)

subsection \<open>Assistant events replace the text of the placeholder\<close>

lemma findIndex_Some:
  "findIndex P xs = Some i \<Longrightarrow> i < length xs \<and> P (xs ! i)"
  by (induction xs arbitrary: i) (auto split: if_splits)

lemma findIndex_update:
  "findIndex P xs = Some i \<Longrightarrow> P y \<Longrightarrow> findIndex P (xs[i := y]) = Some i"
  by (induction xs arbitrary: i) (auto split: if_splits)

lemma findIndex_find:
  "findIndex P xs = Some i \<Longrightarrow> find P xs = Some (xs ! i)"
  by (induction xs arbitrary: i) (auto split: if_splits)

lemma text_part_retext: "(text_part t0)\<lparr>ptext := Some t\<rparr> = text_part t"
  by (simp add: text_part_def)

lemma findIndex_text_part: "findIndex (\<lambda>p. ptype p = js ''text'') [text_part t0] = Some 0"
  by (simp add: text_part_def)

lemma replace_text_placeholder:
  assumes ch: "map_of (chats s) c = Some chat"
    and ix: "findIndex (\<lambda>m. msg_id m = mid) (messages chat) = Some i"
    and ps: "parts (messages chat ! i) = [] \<or> (\<exists>t0. parts (messages chat ! i) = [text_part t0])"
  shows "replace_text c mid t s = Inr (put_parts c chat i [text_part t] s)"
  using ps
proof
  assume "parts (messages chat ! i) = []"
  with ch ix show ?thesis
    by (simp add: replace_text_def put_parts_def Let_def)
next
  assume "\<exists>t0. parts (messages chat ! i) = [text_part t0]"
  then obtain t0 where "parts (messages chat ! i) = [text_part t0]" ..
  with ch ix show ?thesis
    by (simp add: replace_text_def put_parts_def Let_def text_part_def)
qed

lemma handleStreamEvent_placeholder:
  assumes k: "karton a = Some s"
    and ch: "map_of (chats s) c = Some chat"
    and ix: "findIndex (\<lambda>m. msg_id m = mid) (messages chat) = Some i"
    and ps: "parts (messages chat ! i) = [] \<or> (\<exists>t0. parts (messages chat ! i) = [text_part t0])"
  shows "handleStreamEvent e c mid a
     = Inr (if event_text e = [] then a
            else a\<lparr>karton := Some (put_parts c chat i [text_part (event_text e)] s)\<rparr>)"
  using k replace_text_placeholder [OF ch ix ps]
  by (simp add: handleStreamEvent_def event_text_def split: option.splits)

lemma put_parts_chat:
  "map_of (chats (put_parts c chat i ps s)) c = Some (with_parts chat i ps)"
  by (simp add: put_parts_def with_parts_def update_conv')

lemma with_parts_findIndex:
  "findIndex (\<lambda>m. msg_id m = mid) (messages chat) = Some i \<Longrightarrow>
   findIndex (\<lambda>m. msg_id m = mid) (messages (with_parts chat i ps)) = Some i"
  using findIndex_Some [of "\<lambda>m. msg_id m = mid" "messages chat" i]
  by (simp add: with_parts_def findIndex_update)

lemma with_parts_parts:
  "i < length (messages chat) \<Longrightarrow> parts (messages (with_parts chat i ps) ! i) = ps"
  by (simp add: with_parts_def)

lemma put_parts_twice:
  "i < length (messages chat) \<Longrightarrow>
   put_parts c (with_parts chat i ps) i ps' (put_parts c chat i ps s) = put_parts c chat i ps' s"
  by (simp add: put_parts_def with_parts_def)

lemma read_loop_events_general:
  assumes "karton a = Some s"
    and "map_of (chats s) c = Some chat"
    and "findIndex (\<lambda>m. msg_id m = mid) (messages chat) = Some i"
    and "parts (messages chat ! i) = [] \<or> (\<exists>t0. parts (messages chat ! i) = [text_part t0])"
  shows "read_loop h c mid (map Event es) a
     = (case last_nonempty (map event_text es) of
          None \<Rightarrow> a
        | Some t \<Rightarrow> a\<lparr>karton := Some (put_parts c chat i [text_part t] s)\<rparr>)"
  using assms
proof (induction es arbitrary: a s chat)
  case Nil
  show ?case by simp
next
  case (Cons e es)
  note step = handleStreamEvent_placeholder [OF Cons.prems, of e]
  show ?case
  proof (cases "event_text e = []")
    case True
    with step Cons.IH [OF Cons.prems] show ?thesis
      by (simp split: option.splits)
  next
    case False
    let ?t = "event_text e"
    let ?s1 = "put_parts c chat i [text_part ?t] s"
    let ?a1 = "a\<lparr>karton := Some ?s1\<rparr>"
    have len: "i < length (messages chat)"
      using findIndex_Some [OF Cons.prems(3)] by simp
    have ih: "read_loop h c mid (map Event es) ?a1
       = (case last_nonempty (map event_text es) of
            None \<Rightarrow> ?a1
          | Some t \<Rightarrow> ?a1\<lparr>karton := Some (put_parts c (with_parts chat i [text_part ?t]) i
                                            [text_part t] ?s1)\<rparr>)"
    proof (rule Cons.IH)
      show "karton ?a1 = Some ?s1" by simp
      show "map_of (chats ?s1) c = Some (with_parts chat i [text_part ?t])"
        by (rule put_parts_chat)
      show "findIndex (\<lambda>m. msg_id m = mid) (messages (with_parts chat i [text_part ?t]))
              = Some i"
        by (rule with_parts_findIndex [OF Cons.prems(3)])
      show "parts (messages (with_parts chat i [text_part ?t]) ! i) = []
              \<or> (\<exists>t0. parts (messages (with_parts chat i [text_part ?t]) ! i)
                         = [text_part t0])"
        by (auto simp: with_parts_parts [OF len])
    qed
    from False step ih show ?thesis
      by (simp add: put_parts_twice [OF len] split: option.splits)
  qed
qed

lemma find_message_clear:
  "find_message c m (clear_working (a\<lparr>currentProcess := None\<rparr>)) = find_message c m a"
  by (cases "karton a") (simp_all add: find_message_def clear_working_def)

lemma read_loop_events_parts:
  assumes "karton a = Some s"
    and "map_of (chats s) c = Some chat"
    and "findIndex (\<lambda>m. msg_id m = mid) (messages chat) = Some i"
    and "parts (messages chat ! i) = []"
  shows "map_option parts (find_message c mid (read_loop h c mid (map Event es) a))
       = Some (case last_nonempty (map event_text es) of
                 None \<Rightarrow> []
               | Some t \<Rightarrow> [text_part t])"
proof -
  have len: "i < length (messages chat)"
    using findIndex_Some [OF assms(3)] by simp
  have loop: "read_loop h c mid (map Event es) a
       = (case last_nonempty (map event_text es) of
            None \<Rightarrow> a
          | Some t \<Rightarrow> a\<lparr>karton := Some (put_parts c chat i [text_part t] s)\<rparr>)"
    by (rule read_loop_events_general [OF assms(1-3)]) (simp add: assms(4))
  have none: "map_option parts (find_message c mid a) = Some []"
    using assms by (simp add: find_message_def findIndex_find)
  have some: "map_option parts
        (find_message c mid (a\<lparr>karton := Some (put_parts c chat i [text_part t] s)\<rparr>))
      = Some [text_part t]" for t
    using with_parts_findIndex [OF assms(3), of "[text_part t]"] len
    by (simp add: find_message_def put_parts_chat findIndex_find with_parts_parts)
  show ?thesis
    using loop none some by (simp split: option.splits)
qed


lemma example_begin:
  "begin_turn example_message example_env example_agent
     = Reading example_reading example_handle (js ''c1'')"
  by (simp add: begin_turn_def example_agent_def example_env_def example_config_def
      initialize_def createAndActivateNewChat_def obj_set_Nil initialState_def push_message_def
      spawnClaudeCode_def Let_def js_def example_reading_def example_handle_def
      example_state_def example_chat_def)

lemma example_reading_facts:
  "karton example_reading = Some example_state"
  "map_of (chats example_state) (js ''c1'') = Some example_chat"
  "findIndex (\<lambda>m. msg_id m = js ''m1'') (messages example_chat) = Some 1"
  "parts (messages example_chat ! 1) = []"
  by (simp_all add: example_reading_def example_state_def example_chat_def
      example_message_def placeholder_def js_def)


lemma example_texts:
  "last_nonempty (map event_text
       [assistant_event [text_fragment (js ''Hel'')],
        assistant_event [text_fragment (js ''Hello'')], tool_use_event])
     = Some (js ''Hello'')"
  "last_nonempty (map event_text [tool_use_event]) = None"
  "last_nonempty (map event_text [assistant_event [text_fragment (js ''late'')]])
     = Some (js ''late'')"
  by (simp_all add: event_text_def assistant_event_def text_fragment_def tool_use_event_def
      textContent_of_def js_def)

lemma example_assistantMessageId: "assistantMessageId example_env = js ''m1''"
  by (simp add: example_env_def)


text \<open>
  In the example turn, an \<open>assistant\<close> event that carries a tool use only leaves the
  placeholder without parts.
\<close>

lemma no_text_part_without_text:
  "\<not> (\<exists>t. map_option parts (find_message (js ''c1'') (js ''m1'')
          (fst (handleUserMessage example_message example_env [Event tool_use_event]
                  example_agent)))
        = Some [text_part t])
   \<and> map_option parts (find_message (js ''c1'') (js ''m1'')
          (fst (handleUserMessage example_message example_env [Event tool_use_event]
                  example_agent)))
        = Some []"
proof -
  have "map_option parts (find_message (js ''c1'') (js ''m1'')
          (read_loop example_handle (js ''c1'') (js ''m1'') (map Event [tool_use_event])
             example_reading)) = Some []"
    using read_loop_events_parts [OF example_reading_facts, of example_handle
        "[tool_use_event]", unfolded example_texts]
    by (simp only: option.case)
  then show ?thesis
    by (auto simp: handleUserMessage_def example_begin example_assistantMessageId Let_def
        find_message_clear)
qed

subsection \<open>Abort\<close>





lemma clear_working_view: "chat_view (clear_working a) = chat_view a"
  by (cases "karton a") (simp_all add: clear_working_def chat_view_def)













end
